theory Spec2Isabelle
  imports Complex_Main
begin

section \<open>Python values and library routines used by ama-chatbot.py\<close>

text \<open>
  Exceptions become values.  \<open>UnboundLocalError\<close> is what Python raises when a local
  variable is read before any assignment; \<open>TypeError\<close> and \<open>ValueError\<close> are the
  built-in exceptions; \<open>DotError\<close> stands for the exception \<open>numpy.dot\<close> raises on an
  operand that is not numeric or whose length does not fit; \<open>APIError\<close> stands for any
  failure of a remote service or of a model load.
\<close>

datatype error = UnboundLocalError | TypeError | ValueError | DotError | APIError

text \<open>
  A cell of the column \<open>num_tokens\<close> after \<open>get_data\<close>: \<open>int(x) if x != '' else ''\<close>.
\<close>

datatype tokens_cell = NumTokens int | NoTokens

text \<open>
  A value of the column \<open>embeddings\<close>: a Python list of floats (what \<open>parse_numbers\<close>
  and the OpenAI client return), a numpy array (what \<open>SentenceTransformer.encode\<close>
  returns), or the empty string (what \<open>parse_numbers\<close> returns on an empty cell).
  Floats are modelled by reals; no statement below depends on rounding.
\<close>

datatype embeddings_cell = PyList "real list" | NdArray "real list" | EmptyStr

record row =
  section_col :: string
  content_col :: string
  num_tokens :: tokens_cell
  embeddings :: embeddings_cell

text \<open>
  The services and library routines the module calls but does not define:
  the two embedding backends, the GPT-2 tokenizer, the completion endpoint, the
  sorting routine behind \<open>DataFrame.sort_values(by='similarity', ascending=False)\<close>,
  which is called with pandas' default \<open>kind\<close>, the printing of a float
  (\<open>repr\<close>), the reading of a float literal that has no blank around it, and
  numpy's printing of an array.
\<close>

record externals =
  openai_embedding_create :: "string \<Rightarrow> error + real list"
  sentence_transformer_encode :: "string \<Rightarrow> error + real list"
  tokenizer_tokenize :: "string \<Rightarrow> string list"
  tokenizer_encode :: "string \<Rightarrow> nat list"
  sort_values_desc :: "(row \<times> real) list \<Rightarrow> (row \<times> real) list"
  completion_create :: "string \<Rightarrow> error + string"
  float_repr :: "real \<Rightarrow> string"
  float_literal :: "string \<Rightarrow> error + real"
  ndarray_str :: "real list \<Rightarrow> string"

text \<open>\<open>str.strip(chars)\<close>: drop the characters of the given class at both ends.\<close>

definition strip_by :: "(char \<Rightarrow> bool) \<Rightarrow> string \<Rightarrow> string" where
  "strip_by p s = rev (dropWhile p (rev (dropWhile p s)))"

text \<open>
  \<open>str.isspace\<close> on the code points below 256: tab to carriage return, the four
  separators 0x1C to 0x1F, the space, NEL and the no-break space.
\<close>

definition py_isspace :: "char \<Rightarrow> bool" where
  "py_isspace c \<longleftrightarrow>
     (let n = of_char c :: nat
      in (9 \<le> n \<and> n \<le> 13) \<or> (28 \<le> n \<and> n \<le> 32) \<or> n = 133 \<or> n = 160)"

definition py_strip :: "string \<Rightarrow> string" where
  "py_strip s = strip_by py_isspace s"

text \<open>\<open>s.replace("\n", " ")\<close>: both strings are one character long.\<close>

definition replace_newlines :: "string \<Rightarrow> string" where
  "replace_newlines s = map (\<lambda>c. if c = CHR ''\<newline>'' then CHR '' '' else c) s"

text \<open>\<open>Series.apply(f)\<close>: \<open>f\<close> on every element in order; the first exception ends it.\<close>

fun series_apply :: "('a \<Rightarrow> error + 'b) \<Rightarrow> 'a list \<Rightarrow> error + 'b list" where
  "series_apply f [] = Inr []"
| "series_apply f (x # xs) =
     (case f x of
        Inl e \<Rightarrow> Inl e
      | Inr y \<Rightarrow> (case series_apply f xs of Inl e \<Rightarrow> Inl e | Inr ys \<Rightarrow> Inr (y # ys)))"

section \<open>Embeddings\<close>

text \<open>
  \<open>get_embeddings\<close>: two independent \<open>if\<close> statements assign the local \<open>embedding\<close>;
  the \<open>return\<close> reads it whether or not it was assigned.  The local is an option here.
\<close>

definition get_embeddings :: "externals \<Rightarrow> string \<Rightarrow> string \<Rightarrow> error + embeddings_cell" where
  "get_embeddings ext text method =
     (case (if method = ''openai''
            then (case openai_embedding_create ext text of
                    Inl e \<Rightarrow> Inl e | Inr v \<Rightarrow> Inr (Some (PyList v)))
            else Inr None) of
        Inl e \<Rightarrow> Inl e
      | Inr embedding1 \<Rightarrow>
          (case (if method = ''huggingface''
                 then (case sentence_transformer_encode ext text of
                         Inl e \<Rightarrow> Inl e | Inr v \<Rightarrow> Inr (Some (NdArray v)))
                 else Inr embedding1) of
             Inl e \<Rightarrow> Inl e
           | Inr None \<Rightarrow> Inl UnboundLocalError
           | Inr (Some embedding) \<Rightarrow> Inr embedding))"

section \<open>Ranking\<close>

fun np_array :: "embeddings_cell \<Rightarrow> real list option" where
  "np_array (PyList v) = Some v"
| "np_array (NdArray v) = Some v"
| "np_array EmptyStr = None"

text \<open>
  \<open>vector_similarity\<close> is \<open>np.dot(np.array(x), np.array(y))\<close>: the sum of the products
  of two numeric vectors of one length, an exception otherwise.
\<close>

definition vector_similarity :: "embeddings_cell \<Rightarrow> embeddings_cell \<Rightarrow> error + real" where
  "vector_similarity x y =
     (case (np_array x, np_array y) of
        (Some u, Some v) \<Rightarrow>
          if length u = length v then Inr (sum_list (map2 (*) u v)) else Inl DotError
      | _ \<Rightarrow> Inl DotError)"

text \<open>
  \<open>order_entries_by_similarity\<close>: the rows come back paired with the new column
  \<open>similarity\<close>, in the order the sorting routine gives.
\<close>

definition order_entries_by_similarity ::
    "externals \<Rightarrow> string \<Rightarrow> row list \<Rightarrow> string \<Rightarrow> error + (row \<times> real) list" where
  "order_entries_by_similarity ext query df method =
     (case get_embeddings ext query method of
        Inl e \<Rightarrow> Inl e
      | Inr query_embedding \<Rightarrow>
          (case series_apply (\<lambda>d. vector_similarity (embeddings d) query_embedding) df of
             Inl e \<Rightarrow> Inl e
           | Inr similarity \<Rightarrow> Inr (sort_values_desc ext (zip df similarity))))"

section \<open>Prompt construction\<close>

definition get_max_num_tokens :: int where
  "get_max_num_tokens = 2046"

definition SEPARATOR :: string where
  "SEPARATOR = ''\<newline>* ''"

definition header :: string where
  "header = ''\<newline>    This question is asked by an interviewer or somebody who wants to know\<newline>    more about me, Francois Ascani. Answer politely using the following context\<newline>    but don't be afraid to have a candid, good-nature, and joking tone as\<newline>    this is exactly who I am. Context:\<newline>\<newline>    ''"

text \<open>
  The \<open>for\<close> loop of \<open>construct_prompt\<close>, with its two accumulators.  Adding a
  \<open>num_tokens\<close> cell that holds \<open>''\<close> to an integer raises \<open>TypeError\<close>.  At the
  \<open>break\<close> the running total already includes the row that did not fit.
\<close>

fun choose_sections ::
    "int \<Rightarrow> int \<Rightarrow> row list \<Rightarrow> string list \<Rightarrow> int \<Rightarrow> error + string list \<times> int" where
  "choose_sections MAX_SECTION_LEN separator_len [] chosen_sections chosen_sections_len =
     Inr (chosen_sections, chosen_sections_len)"
| "choose_sections MAX_SECTION_LEN separator_len (document_section # rest)
       chosen_sections chosen_sections_len =
     (case num_tokens document_section of
        NoTokens \<Rightarrow> Inl TypeError
      | NumTokens n \<Rightarrow>
          (let len' = chosen_sections_len + (n + separator_len)
           in if len' > MAX_SECTION_LEN then Inr (chosen_sections, len')
              else choose_sections MAX_SECTION_LEN separator_len rest
                     (chosen_sections @ [SEPARATOR @ replace_newlines (content_col document_section)])
                     len'))"

definition construct_prompt :: "externals \<Rightarrow> string \<Rightarrow> row list \<Rightarrow> string \<Rightarrow> error + string" where
  "construct_prompt ext query df method =
     (let MAX_SECTION_LEN = get_max_num_tokens;
          separator_len = int (length (tokenizer_tokenize ext SEPARATOR))
      in case order_entries_by_similarity ext query df method of
           Inl e \<Rightarrow> Inl e
         | Inr ranked \<Rightarrow>
             (case choose_sections MAX_SECTION_LEN separator_len (map fst ranked) [] 0 of
                Inl e \<Rightarrow> Inl e
              | Inr (chosen_sections, chosen_sections_len) \<Rightarrow>
                  Inr (header @ concat chosen_sections @ ''\<newline>\<newline> Q: '' @ query @ ''\<newline> A:'')))"




section \<open>Computed fields\<close>

text \<open>
  \<open>add_embeddings\<close> adds the column \<open>combined\<close> and overwrites \<open>embeddings\<close> and
  \<open>num_tokens\<close>, one whole column after the other.
\<close>

record row_combined = row +
  combined :: string

definition combined_text :: "row \<Rightarrow> string" where
  "combined_text d =
     ''Title: '' @ py_strip (section_col d) @ ''; Content: '' @ py_strip (content_col d)"

definition add_embeddings :: "externals \<Rightarrow> row list \<Rightarrow> string \<Rightarrow> error + row_combined list" where
  "add_embeddings ext df method =
     (let combined_column = map combined_text df
      in case series_apply (\<lambda>x. get_embeddings ext x method) combined_column of
           Inl e \<Rightarrow> Inl e
         | Inr embeddings_column \<Rightarrow>
             Inr (map (\<lambda>(d, x, emb).
                         \<lparr>section_col = section_col d, content_col = content_col d,
                          num_tokens = NumTokens (int (length (tokenizer_encode ext x))),
                          embeddings = emb, combined = x\<rparr>)
                      (zip df (zip combined_column embeddings_column))))"

section \<open>The spreadsheet\<close>

text \<open>
  A worksheet is the grid of its cell values, row by row, up to the last used row; an
  absent cell is the empty string.  Rows and columns count from 1, as in gspread.
  The spreadsheet maps a worksheet's title to the worksheet.
\<close>

type_synonym worksheet = "string list list"

type_synonym spreadsheet = "string \<rightharpoonup> worksheet"

datatype store_error = WorksheetNotFound | DataFrameError

definition access_sheet :: "spreadsheet \<Rightarrow> string \<Rightarrow> store_error + worksheet" where
  "access_sheet db sheet_name =
     (case db sheet_name of None \<Rightarrow> Inl WorksheetNotFound | Some sheet \<Rightarrow> Inr sheet)"

definition cell :: "worksheet \<Rightarrow> nat \<Rightarrow> nat \<Rightarrow> string" where
  "cell sheet r c =
     (if 1 \<le> r \<and> r \<le> length sheet \<and> 1 \<le> c \<and> c \<le> length (sheet ! (r - 1))
      then sheet ! (r - 1) ! (c - 1) else [])"

text \<open>\<open>get_all_values\<close>: every row, filled with empty strings to the widest row.\<close>

definition get_all_values :: "worksheet \<Rightarrow> string list list" where
  "get_all_values sheet =
     (let w = fold max (map length sheet) 0
      in map (\<lambda>r. r @ replicate (w - length r) []) sheet)"

text \<open>\<open>update_cell(row, col, value)\<close>, for \<open>row\<close> and \<open>col\<close> at least 1: the grid grows as needed.\<close>

definition update_cell :: "worksheet \<Rightarrow> nat \<Rightarrow> nat \<Rightarrow> string \<Rightarrow> worksheet" where
  "update_cell sheet r c v =
     (let rows = sheet @ replicate (r - length sheet) [];
          old = rows ! (r - 1);
          new = (old @ replicate (c - length old) [])[c - 1 := v]
      in rows[r - 1 := new])"

text \<open>
  \<open>pd.DataFrame(rows, columns=names)\<close> on a list of lists: it raises when there are rows
  and the widest one does not have as many cells as there are names.
\<close>

definition data_frame :: "string list list \<Rightarrow> nat \<Rightarrow> store_error + string list list" where
  "data_frame rows ncols =
     (if rows \<noteq> [] \<and> fold max (map length rows) 0 \<noteq> ncols then Inl DataFrameError
      else Inr rows)"

subsection \<open>Printing integers and dates\<close>

function str_nat :: "nat \<Rightarrow> string" where
  "str_nat n =
     (if n < 10 then [char_of (48 + n)] else str_nat (n div 10) @ [char_of (48 + n mod 10)])"
  by pat_completeness auto
termination
  by (relation "measure id") auto

declare str_nat.simps [simp del]

definition str_int :: "int \<Rightarrow> string" where
  "str_int i = (if i < 0 then CHR ''-'' # str_nat (nat (- i)) else str_nat (nat i))"

definition zfill :: "nat \<Rightarrow> string \<Rightarrow> string" where
  "zfill w s = replicate (w - length s) CHR ''0'' @ s"

record date =
  year :: nat
  month :: nat
  day :: nat

text \<open>\<open>strftime(d, '%Y-%m-%d')\<close>.\<close>

definition strftime_ymd :: "date \<Rightarrow> string" where
  "strftime_ymd d =
     zfill 4 (str_nat (year d)) @ ''-'' @ zfill 2 (str_nat (month d)) @ ''-''
       @ zfill 2 (str_nat (day d))"

subsection \<open>The question and answer log\<close>

text \<open>\<open>record_question_answer\<close>, with the clock's date as an argument.\<close>

definition record_question_answer ::
    "date \<Rightarrow> string \<Rightarrow> string \<Rightarrow> spreadsheet \<Rightarrow> store_error + spreadsheet" where
  "record_question_answer today query answer db =
     (case access_sheet db ''Q&A'' of
        Inl e \<Rightarrow> Inl e
      | Inr sheet \<Rightarrow>
          (let data = get_all_values sheet
           in case data_frame (tl data) 3 of
                Inl e \<Rightarrow> Inl e
              | Inr df \<Rightarrow>
                  (let num_records = length df;
                       today_str = strftime_ymd today;
                       sheet1 = update_cell sheet (num_records + 2) 1 today_str;
                       sheet2 = update_cell sheet1 (num_records + 2) 2 query;
                       sheet3 = update_cell sheet2 (num_records + 2) 3 answer
                   in Inr (db(''Q&A'' \<mapsto> sheet3)))))"

subsection \<open>Writing the computed fields back\<close>

text \<open>\<open>str\<close> of a cell of \<open>num_tokens\<close> and of a value of \<open>embeddings\<close>.\<close>

fun str_tokens :: "tokens_cell \<Rightarrow> string" where
  "str_tokens (NumTokens n) = str_int n"
| "str_tokens NoTokens = []"

text \<open>\<open>sep.join(xs)\<close>.\<close>

fun join :: "string \<Rightarrow> string list \<Rightarrow> string" where
  "join sep [] = []"
| "join sep [x] = x"
| "join sep (x # y # ys) = x @ sep @ join sep (y # ys)"

fun str_embeddings :: "externals \<Rightarrow> embeddings_cell \<Rightarrow> string" where
  "str_embeddings ext (PyList v) = ''['' @ join '', '' (map (float_repr ext) v) @ '']''"
| "str_embeddings ext (NdArray v) = ndarray_str ext v"
| "str_embeddings ext EmptyStr = []"

text \<open>The body of the loop of \<open>record_embeddings\<close> for the row at index \<open>i\<close>.\<close>

definition record_row :: "externals \<Rightarrow> nat \<times> 'a row_scheme \<Rightarrow> worksheet \<Rightarrow> worksheet" where
  "record_row ext = (\<lambda>(i, d) sheet.
     update_cell (update_cell sheet (i + 2) 3 (str_tokens (num_tokens d)))
       (i + 2) 4 (str_embeddings ext (embeddings d)))"

definition record_embeddings ::
    "externals \<Rightarrow> 'a row_scheme list \<Rightarrow> spreadsheet \<Rightarrow> store_error + spreadsheet" where
  "record_embeddings ext df db =
     (case access_sheet db ''info'' of
        Inl e \<Rightarrow> Inl e
      | Inr sheet \<Rightarrow> Inr (db(''info'' \<mapsto> fold (record_row ext) (enumerate 0 df) sheet)))"

subsection \<open>Reading an embedding back\<close>

text \<open>\<open>s.split(sep)\<close> for a separator of one character.\<close>

fun split :: "char \<Rightarrow> string \<Rightarrow> string list" where
  "split sep [] = [[]]"
| "split sep (c # cs) =
     (if c = sep then [] # split sep cs
      else (case split sep cs of w # ws \<Rightarrow> (c # w) # ws | [] \<Rightarrow> [[c]]))"

text \<open>\<open>float(x)\<close> on a string: blanks at both ends are dropped, the rest is the literal.\<close>

definition py_float :: "externals \<Rightarrow> string \<Rightarrow> error + real" where
  "py_float ext x = float_literal ext (py_strip x)"

definition parse_numbers :: "externals \<Rightarrow> string \<Rightarrow> error + embeddings_cell" where
  "parse_numbers ext s =
     (if s \<noteq> []
      then (case series_apply (py_float ext)
                   (split CHR '','' (strip_by (\<lambda>c. c = CHR ''['' \<or> c = CHR '']'') s)) of
              Inl e \<Rightarrow> Inl e
            | Inr v \<Rightarrow> Inr (PyList v))
      else Inr EmptyStr)"

section \<open>The chatbot\<close>

text \<open>
  \<open>ama_chatbot\<close> with the spreadsheet as state: the function returns the answer and the
  prompt, and the spreadsheet as it leaves it.
\<close>

definition ama_chatbot ::
    "externals \<Rightarrow> string \<Rightarrow> row list \<Rightarrow> string \<Rightarrow> spreadsheet
       \<Rightarrow> (error + string \<times> string) \<times> spreadsheet" where
  "ama_chatbot ext query df method db =
     (case construct_prompt ext query df method of
        Inl e \<Rightarrow> (Inl e, db)
      | Inr prompt \<Rightarrow>
          (case completion_create ext prompt of
             Inl e \<Rightarrow> (Inl e, db)
           | Inr text \<Rightarrow>
               (Inr (strip_by (\<lambda>c. c = CHR '' '' \<or> c = CHR ''\<newline>'') text, prompt), db)))"

section \<open>Example data\<close>

text \<open>Three entries of a knowledge base, used to run the definitions.\<close>

definition hobbies :: row where
  "hobbies = \<lparr>section_col = ''Hobbies'', content_col = ''I like chess.'',
     num_tokens = NumTokens 6, embeddings = PyList [1, 0]\<rparr>"

definition job :: row where
  "job = \<lparr>section_col = ''Job'', content_col = ''I am an\<newline>engineer.'',
     num_tokens = NumTokens 8, embeddings = PyList [0, 1]\<rparr>"


definition example_ext :: externals where
  "example_ext =
     \<lparr>openai_embedding_create = (\<lambda>t. Inr [0, 1]),
      sentence_transformer_encode = (\<lambda>t. Inr [0, 1]),
      tokenizer_tokenize = (\<lambda>s. map (\<lambda>c. [c]) s),
      tokenizer_encode = (\<lambda>s. map of_char s),
      sort_values_desc = (\<lambda>xs. sort_key (\<lambda>p. - snd p) xs),
      completion_create = (\<lambda>p. Inr '' I am an engineer.\<newline>''),
      float_repr = (\<lambda>x. if x = 1 / 2 then ''0.5'' else ''-1.0''),
      float_literal = (\<lambda>s. if s = ''0.5'' then Inr (1 / 2)
                            else if s = ''-1.0'' then Inr (- 1) else Inl ValueError),
      ndarray_str = (\<lambda>v. ''[ 0.5 -1. ]'')\<rparr>"

definition padded :: row where
  "padded = \<lparr>section_col = '' Job'', content_col = ''I am an engineer.\<newline>'',
     num_tokens = NoTokens, embeddings = EmptyStr\<rparr>"


definition unembedded :: row where
  "unembedded = \<lparr>section_col = ''Draft'', content_col = ''To be written.'',
     num_tokens = NoTokens, embeddings = EmptyStr\<rparr>"

definition example_db :: spreadsheet where
  "example_db =
     [''info'' \<mapsto> [[''section'', ''content'', ''num_tokens'', ''embeddings''],
                   [''Hobbies'', ''I like chess.'', '''', '''']],
      ''Q&A'' \<mapsto> [[''date'', ''query'', ''answer'']]]"

definition valentine :: date where
  "valentine = \<lparr>year = 2023, month = 2, day = 14\<rparr>"

definition chess :: row where
  "chess = \<lparr>section_col = ''Hobbies'', content_col = ''I like chess.'',
     num_tokens = NumTokens 6, embeddings = PyList [1 / 2, - 1]\<rparr>"

text \<open>
  What \<open>repr\<close> gives for a float: a literal that is not empty, holds no comma, and
  neither starts nor ends with a blank or a bracket.
\<close>

definition plain_literal :: "string \<Rightarrow> bool" where
  "plain_literal s \<longleftrightarrow>
     s \<noteq> [] \<and> CHR '','' \<notin> set s
     \<and> \<not> py_isspace (hd s) \<and> \<not> py_isspace (last s)
     \<and> hd s \<noteq> CHR ''['' \<and> hd s \<noteq> CHR '']'' \<and> last s \<noteq> CHR ''['' \<and> last s \<noteq> CHR '']''"

section \<open>The prompt stays within the token ceiling\<close>






section \<open>The embedding backend selector\<close>

text \<open>
  C10.  With a selector that is neither \<open>'openai'\<close> nor \<open>'huggingface'\<close>, neither
  branch of \<open>get_embeddings\<close> assigns \<open>embedding\<close>: the call returns no vector, it
  raises \<open>UnboundLocalError\<close> at the \<open>return\<close>, whatever the text.
\<close>

theorem get_embeddings_unsupported_method:
  assumes "method \<noteq> ''openai''" and "method \<noteq> ''huggingface''"
  shows "get_embeddings ext text method = Inl UnboundLocalError"
  using assms by (simp add: get_embeddings_def)

theorem get_embeddings_unsupported_method_witness:
  "''cohere'' \<noteq> ''openai'' \<and> ''cohere'' \<noteq> ''huggingface''
   \<and> get_embeddings example_ext ''What do you do?'' ''cohere'' = Inl UnboundLocalError"
  using get_embeddings_unsupported_method [of "''cohere''" example_ext "''What do you do?''"]
  by simp

text \<open>With a supported selector the call returns what the selected backend returns.\<close>

lemma get_embeddings_openai:
  "get_embeddings ext text ''openai'' =
     (case openai_embedding_create ext text of Inl e \<Rightarrow> Inl e | Inr v \<Rightarrow> Inr (PyList v))"
  by (simp add: get_embeddings_def split: sum.splits)

lemma get_embeddings_huggingface:
  "get_embeddings ext text ''huggingface'' =
     (case sentence_transformer_encode ext text of Inl e \<Rightarrow> Inl e | Inr v \<Rightarrow> Inr (NdArray v))"
  by (simp add: get_embeddings_def split: sum.splits)

section \<open>The combined field\<close>

lemma strip_by_id:
  assumes "s = [] \<or> (\<not> p (hd s) \<and> \<not> p (last s))"
  shows "strip_by p s = s"
proof (cases s)
  case Nil
  then show ?thesis by (simp add: strip_by_def)
next
  case (Cons a as)
  with assms have a: "\<not> p a" and l: "\<not> p (last s)" by auto
  from a Cons have 1: "dropWhile p s = s" by simp
  from Cons have "s \<noteq> []" by simp
  with l have "\<not> p (hd (rev s))" by (simp add: hd_rev)
  then have "dropWhile p (rev s) = rev s" by (cases "rev s") simp_all
  with 1 show ?thesis by (simp add: strip_by_def)
qed

lemma series_apply_length:
  "series_apply f xs = Inr ys \<Longrightarrow> length ys = length xs"
  by (induction xs arbitrary: ys) (auto split: sum.splits)

lemma length_strip_by: "length (strip_by p s) \<le> length s"
proof -
  have "length (dropWhile p (rev (dropWhile p s))) \<le> length (rev (dropWhile p s))"
    by (rule length_dropWhile_le)
  also have "\<dots> \<le> length s" by (simp add: length_dropWhile_le)
  finally show ?thesis by (simp add: strip_by_def)
qed

lemma dropWhile_same_length:
  assumes "length (dropWhile p xs) = length xs"
  shows "xs = [] \<or> \<not> p (hd xs)"
proof (cases xs)
  case Nil
  then show ?thesis by simp
next
  case (Cons x xs')
  show ?thesis
  proof (rule ccontr)
    assume "\<not> (xs = [] \<or> \<not> p (hd xs))"
    with Cons have "dropWhile p xs = dropWhile p xs'" by simp
    then have "length (dropWhile p xs) \<le> length xs'" by (simp add: length_dropWhile_le)
    with assms Cons show False by simp
  qed
qed

lemma strip_by_same_length:
  assumes "length (strip_by p s) = length s"
  shows "s = [] \<or> (\<not> p (hd s) \<and> \<not> p (last s))"
proof (cases "s = []")
  case True
  then show ?thesis by simp
next
  case False
  have a: "length (dropWhile p (rev (dropWhile p s))) \<le> length (dropWhile p s)"
    using length_dropWhile_le[of p "rev (dropWhile p s)"] by simp
  have b: "length (dropWhile p s) \<le> length s" by (rule length_dropWhile_le)
  from assms have c: "length (dropWhile p (rev (dropWhile p s))) = length s"
    by (simp add: strip_by_def)
  from a b c have "length (dropWhile p s) = length s" by linarith
  from dropWhile_same_length[OF this] False have h: "\<not> p (hd s)" by simp
  with False have d: "dropWhile p s = s" by (cases s) simp_all
  with c have "length (dropWhile p (rev s)) = length (rev s)" by simp
  from dropWhile_same_length[OF this] False have "\<not> p (hd (rev s))" by simp
  with False have "\<not> p (last s)" by (simp add: hd_rev)
  with h show ?thesis by simp
qed

lemma template_eq_iff:
  assumes "length a \<le> length s" and "length b \<le> length c"
  shows "t @ a @ m @ b = t @ s @ m @ c \<longleftrightarrow> length a = length s \<and> length b = length c
           \<and> a = s \<and> b = c"
proof
  assume e: "t @ a @ m @ b = t @ s @ m @ c"
  then have "length (a @ m @ b) = length (s @ m @ c)" by simp
  with assms have l: "length a = length s" by simp
  with e have "a = s" "b = c" by simp_all
  with l show "length a = length s \<and> length b = length c \<and> a = s \<and> b = c" by simp
next
  assume "length a = length s \<and> length b = length c \<and> a = s \<and> b = c"
  then show "t @ a @ m @ b = t @ s @ m @ c" by simp
qed

text \<open>
  C6, as the code has it.  \<open>add_embeddings\<close> keeps the number of rows, and the
  \<open>combined\<close> field of each row is \<open>"Title: "\<close>, the section stripped of blanks at
  both ends, \<open>"; Content: "\<close>, and the content stripped of blanks at both ends.  It is
  the template over the section and the content themselves exactly when neither starts
  or ends with a blank.
\<close>

theorem add_embeddings_combined:
  assumes "add_embeddings ext df method = Inr out" and "i < length df"
  shows "length out = length df
         \<and> combined (out ! i) =
             ''Title: '' @ py_strip (section_col (df ! i)) @ ''; Content: ''
               @ py_strip (content_col (df ! i))
         \<and> ((section_col (df ! i) = [] \<or> (\<not> py_isspace (hd (section_col (df ! i)))
                                          \<and> \<not> py_isspace (last (section_col (df ! i)))))
              \<and> (content_col (df ! i) = [] \<or> (\<not> py_isspace (hd (content_col (df ! i)))
                                          \<and> \<not> py_isspace (last (content_col (df ! i)))))
            \<longleftrightarrow> combined (out ! i) =
                  ''Title: '' @ section_col (df ! i) @ ''; Content: '' @ content_col (df ! i))"
proof -
  from assms(1) obtain embs where
    e: "series_apply (\<lambda>x. get_embeddings ext x method) (map combined_text df) = Inr embs"
    and out: "out = map (\<lambda>(d, x, emb).
                         \<lparr>section_col = section_col d, content_col = content_col d,
                          num_tokens = NumTokens (int (length (tokenizer_encode ext x))),
                          embeddings = emb, combined = x\<rparr>)
                      (zip df (zip (map combined_text df) embs))"
    by (auto simp: add_embeddings_def Let_def split: sum.splits)
  from series_apply_length[OF e] have len: "length embs = length df" by simp
  with out have l: "length out = length df" by simp
  from out len assms(2) have c: "combined (out ! i) = combined_text (df ! i)" by simp
  let ?s = "section_col (df ! i)" and ?c = "content_col (df ! i)"
  let ?plain = "\<lambda>x. x = [] \<or> (\<not> py_isspace (hd x) \<and> \<not> py_isspace (last x))"
  have t: "combined (out ! i) = ''Title: '' @ py_strip ?s @ ''; Content: '' @ py_strip ?c"
    using c by (simp add: combined_text_def)
  have "(?plain ?s \<and> ?plain ?c)
      \<longleftrightarrow> combined (out ! i) = ''Title: '' @ ?s @ ''; Content: '' @ ?c"
  proof
    assume "?plain ?s \<and> ?plain ?c"
    then have "py_strip ?s = ?s" "py_strip ?c = ?c"
      by (simp_all add: py_strip_def strip_by_id)
    with t show "combined (out ! i) = ''Title: '' @ ?s @ ''; Content: '' @ ?c" by simp
  next
    assume "combined (out ! i) = ''Title: '' @ ?s @ ''; Content: '' @ ?c"
    with t have "''Title: '' @ py_strip ?s @ ''; Content: '' @ py_strip ?c
        = ''Title: '' @ ?s @ ''; Content: '' @ ?c"
      by simp
    moreover have "length (py_strip ?s) \<le> length ?s" "length (py_strip ?c) \<le> length ?c"
      by (simp_all add: py_strip_def length_strip_by)
    ultimately have "length (py_strip ?s) = length ?s" "length (py_strip ?c) = length ?c"
      using template_eq_iff[of "py_strip ?s" ?s "py_strip ?c" ?c "''Title: ''" "''; Content: ''"]
      by blast+
    then show "?plain ?s \<and> ?plain ?c"
      using strip_by_same_length[of py_isspace ?s] strip_by_same_length[of py_isspace ?c]
      by (simp add: py_strip_def)
  qed
  with l t show ?thesis by blast
qed

text \<open>
  C6 as stated fails on a section with a leading blank and a content that ends with a
  newline: both are dropped from \<open>combined\<close>.
\<close>

theorem add_embeddings_combined_counterexample:
  "add_embeddings example_ext [padded] ''openai'' =
     Inr [\<lparr>section_col = '' Job'', content_col = ''I am an engineer.\<newline>'',
           num_tokens = NumTokens 38, embeddings = PyList [0, 1],
           combined = ''Title: Job; Content: I am an engineer.''\<rparr>]
   \<and> ''Title: Job; Content: I am an engineer.''
        \<noteq> ''Title: '' @ section_col padded @ ''; Content: '' @ content_col padded"
  by (simp add: add_embeddings_def example_ext_def padded_def combined_text_def
        get_embeddings_def py_strip_def strip_by_def py_isspace_def)

theorem add_embeddings_combined_witness:
  "add_embeddings example_ext [job] ''openai'' =
     Inr [\<lparr>section_col = ''Job'', content_col = ''I am an\<newline>engineer.'',
           num_tokens = NumTokens 38, embeddings = PyList [0, 1],
           combined = ''Title: Job; Content: I am an\<newline>engineer.''\<rparr>]
   \<and> combined (\<lparr>section_col = ''Job'', content_col = ''I am an\<newline>engineer.'',
           num_tokens = NumTokens 38, embeddings = PyList [0, 1],
           combined = ''Title: Job; Content: I am an\<newline>engineer.''\<rparr>) =
             ''Title: '' @ section_col job @ ''; Content: '' @ content_col job"
proof -
  have a: "add_embeddings example_ext [job] ''openai'' =
     Inr [\<lparr>section_col = ''Job'', content_col = ''I am an\<newline>engineer.'',
           num_tokens = NumTokens 38, embeddings = PyList [0, 1],
           combined = ''Title: Job; Content: I am an\<newline>engineer.''\<rparr>]"
    by (simp add: add_embeddings_def example_ext_def job_def combined_text_def
        get_embeddings_def py_strip_def strip_by_def py_isspace_def)
  have s: "\<not> py_isspace (hd (section_col job))" "\<not> py_isspace (last (section_col job))"
    "\<not> py_isspace (hd (content_col job))" "\<not> py_isspace (last (content_col job))"
    by (simp_all add: job_def py_isspace_def)
  from add_embeddings_combined[OF a, of 0] s a show ?thesis by (simp add: job_def)
qed

section \<open>The layout of the prompt\<close>




section \<open>Ranking an entry that has no embedding\<close>

lemma series_apply_fails:
  assumes "\<exists>x\<in>set xs. f x = Inl err" and "\<forall>x e. f x = Inl e \<longrightarrow> e = err"
  shows "series_apply f xs = Inl err"
  using assms(1)
proof (induction xs)
  case Nil
  then show ?case by simp
next
  case (Cons x xs)
  show ?case
  proof (cases "f x")
    case (Inl e)
    with assms(2) have "e = err" by blast
    with Inl show ?thesis by simp
  next
    case (Inr y)
    with Cons.prems have "\<exists>x\<in>set xs. f x = Inl err" by auto
    from Cons.IH[OF this] Inr show ?thesis by simp
  qed
qed

text \<open>
  C4.  When the query has an embedding and some entry of the list holds the empty string
  in place of one, \<open>order_entries_by_similarity\<close> returns no ranking: the product of that
  entry with the query embedding raises, and the exception of \<open>numpy.dot\<close> is the result
  of the call.  This is the failure the specification names DataError.
\<close>

theorem order_entries_missing_embedding:
  assumes "get_embeddings ext query method = Inr query_embedding"
    and "\<exists>d\<in>set df. embeddings d = EmptyStr"
  shows "order_entries_by_similarity ext query df method = Inl DotError"
proof -
  let ?f = "\<lambda>d::row. vector_similarity (embeddings d) query_embedding"
  from assms(2) obtain d where "d \<in> set df" and "embeddings d = EmptyStr"
    by blast
  then have "\<exists>d\<in>set df. ?f d = Inl DotError"
    by (intro bexI[of _ d]) (simp_all add: vector_similarity_def)
  moreover have "\<forall>d e. ?f d = Inl e \<longrightarrow> e = DotError"
    by (auto simp: vector_similarity_def split: option.splits if_splits)
  ultimately have "series_apply ?f df = Inl DotError"
    by (rule series_apply_fails)
  with assms(1) show ?thesis
    by (simp add: order_entries_by_similarity_def)
qed

theorem order_entries_missing_embedding_witness:
  "get_embeddings example_ext ''What do you do?'' ''openai'' = Inr (PyList [0, 1])
   \<and> embeddings unembedded = EmptyStr
   \<and> order_entries_by_similarity example_ext ''What do you do?'' [job, unembedded, hobbies]
        ''openai'' = Inl DotError"
proof -
  have g: "get_embeddings example_ext ''What do you do?'' ''openai'' = Inr (PyList [0, 1])"
    by (simp add: get_embeddings_def example_ext_def)
  have e: "\<exists>d\<in>set [job, unembedded, hobbies]. embeddings d = EmptyStr"
    by (simp add: unembedded_def)
  from order_entries_missing_embedding[OF g e] g show ?thesis
    by (simp add: unembedded_def)
qed

section \<open>The chatbot and the log\<close>

text \<open>Whatever the arguments, \<open>ama_chatbot\<close> returns the spreadsheet it was given.\<close>

lemma ama_chatbot_spreadsheet_unchanged:
  "snd (ama_chatbot ext query df method db) = db"
  by (simp add: ama_chatbot_def split: sum.splits)

text \<open>
  C3.  \<open>ama_chatbot\<close> answers the question and returns the prompt, and leaves the
  spreadsheet as it was: the worksheet \<open>Q&A\<close> still holds its header row only.  A call
  of \<open>record_question_answer\<close>, which \<open>ama_chatbot\<close> does not make, adds the row.
\<close>

theorem ama_chatbot_leaves_log:
  "ama_chatbot example_ext ''What do you do?'' [hobbies, job] ''openai'' example_db
     = (Inr (''I am an engineer.'',
             header @ ''\<newline>* I am an engineer.\<newline>* I like chess.''
               @ ''\<newline>\<newline> Q: What do you do?\<newline> A:''),
        example_db)
   \<and> example_db ''Q&A'' = Some [[''date'', ''query'', ''answer'']]"
proof -
  have r: "order_entries_by_similarity example_ext ''What do you do?'' [hobbies, job] ''openai''
     = Inr [(job, 1), (hobbies, 0)]"
    by (simp add: order_entries_by_similarity_def get_embeddings_def example_ext_def
        vector_similarity_def hobbies_def job_def)
  have c: "choose_sections get_max_num_tokens 3 [job, hobbies] [] 0
      = Inr ([''\<newline>* I am an engineer.'', ''\<newline>* I like chess.''], 20)"
    by (simp add: get_max_num_tokens_def hobbies_def job_def SEPARATOR_def
        replace_newlines_def)
  have s: "int (length (tokenizer_tokenize example_ext SEPARATOR)) = 3"
    by (simp add: example_ext_def SEPARATOR_def)
  have p: "construct_prompt example_ext ''What do you do?'' [hobbies, job] ''openai''
     = Inr (header @ ''\<newline>* I am an engineer.\<newline>* I like chess.''
            @ ''\<newline>\<newline> Q: What do you do?\<newline> A:'')"
    by (simp add: construct_prompt_def r s c del: choose_sections.simps)
  have a: "completion_create example_ext prompt = Inr '' I am an engineer.\<newline>''"
    for prompt
    by (simp add: example_ext_def)
  have st: "strip_by (\<lambda>c. c = CHR '' '' \<or> c = CHR ''\<newline>'') '' I am an engineer.\<newline>''
            = ''I am an engineer.''"
    by (simp add: strip_by_def)
  show ?thesis
    unfolding ama_chatbot_def p
    by (simp add: a st example_db_def)
qed

section \<open>Cells of a worksheet\<close>

lemma cell_update_cell:
  assumes "1 \<le> r" and "1 \<le> c"
  shows "cell (update_cell sheet r c v) r' c' =
           (if r' = r \<and> c' = c then v else cell sheet r' c')"
proof -
  define rows where "rows = sheet @ replicate (r - length sheet) []"
  define old where "old = rows ! (r - 1)"
  define new where "new = (old @ replicate (c - length old) [])[c - 1 := v]"
  have u: "update_cell sheet r c v = rows[r - 1 := new]"
    by (simp add: update_cell_def Let_def rows_def old_def new_def)
  have lr: "length rows = max (length sheet) r" by (simp add: rows_def)
  have ln: "length new = max (length old) c" by (simp add: new_def)
  have rows_cell: "cell rows a b = cell sheet a b" for a b
  proof (cases "a \<le> length sheet")
    case True
    then show ?thesis by (auto simp: cell_def rows_def nth_append)
  next
    case False
    then have "rows ! (a - 1) = []" if "a \<le> length rows"
      using that by (auto simp: rows_def nth_append)
    with False show ?thesis by (auto simp: cell_def)
  qed
  have rows_old: "cell rows r b = (if 1 \<le> b \<and> b \<le> length old then old ! (b - 1) else [])"
    for b
    using assms(1) lr by (simp add: cell_def old_def)
  have old_cell: "1 \<le> b \<Longrightarrow> b \<le> length old \<Longrightarrow> old ! (b - 1) = cell sheet r b" for b
    using rows_old[of b] rows_cell[of r b] by simp
  have old_none: "length old < b \<Longrightarrow> cell sheet r b = []" for b
    using rows_old[of b] rows_cell[of r b] by simp
  show ?thesis
  proof (cases "r' = r")
    case False
    then have "cell (rows[r - 1 := new]) r' c' = cell rows r' c'"
      using assms(1) by (auto simp: cell_def nth_list_update)
    with False u rows_cell show ?thesis by simp
  next
    case True
    have r1: "r - 1 < length rows" using assms(1) lr by simp
    have "cell (rows[r - 1 := new]) r c' =
            (if 1 \<le> c' \<and> c' \<le> length new then new ! (c' - 1) else [])"
      using assms(1) lr r1 by (simp add: cell_def)
    also have "\<dots> = (if c' = c then v else cell sheet r c')"
    proof (cases "c' = c")
      case True
      with assms(2) ln show ?thesis by (simp add: new_def)
    next
      case False
      show ?thesis
      proof (cases "1 \<le> c' \<and> c' \<le> length new")
        case False': False
        with ln have "c' = 0 \<or> length old < c'" by auto
        then have "cell sheet r c' = []"
        proof
          assume "c' = 0"
          then show ?thesis by (simp add: cell_def)
        next
          assume "length old < c'"
          then show ?thesis by (rule old_none)
        qed
        with False False' show ?thesis by auto
      next
        case True
        with False assms(2) have ne: "c' - 1 \<noteq> c - 1" by auto
        from True have "new ! (c' - 1) = (old @ replicate (c - length old) []) ! (c' - 1)"
          using ne by (simp add: new_def)
        also have "\<dots> = cell sheet r c'"
        proof (cases "c' \<le> length old")
          case True': True
          with True have "c' - 1 < length old" by linarith
          with True True' old_cell[of c'] show ?thesis by (simp add: nth_append)
        next
          case False
          with True ln have "length old \<le> c' - 1" "c' - 1 - length old < c - length old"
            by auto
          then have "(old @ replicate (c - length old) []) ! (c' - 1) = []"
            by (simp add: nth_append)
          with False old_none[of c'] show ?thesis by simp
        qed
        finally show ?thesis using True \<open>c' \<noteq> c\<close> by simp
      qed
    qed
    finally show ?thesis using True u by simp
  qed
qed

section \<open>Writing the computed fields back\<close>

lemma cell_record_row:
  "cell (record_row ext (i, d) sheet) r c =
     (if r = i + 2 \<and> c = 3 then str_tokens (num_tokens d)
      else if r = i + 2 \<and> c = 4 then str_embeddings ext (embeddings d)
      else cell sheet r c)"
  by (simp add: record_row_def cell_update_cell)

lemma cell_fold_record_row:
  "cell (fold (record_row ext) (enumerate n df) sheet) r c =
     (if n + 2 \<le> r \<and> r < n + 2 + length df \<and> c = 3
      then str_tokens (num_tokens (df ! (r - n - 2)))
      else if n + 2 \<le> r \<and> r < n + 2 + length df \<and> c = 4
      then str_embeddings ext (embeddings (df ! (r - n - 2)))
      else cell sheet r c)"
proof (induction df arbitrary: n sheet)
  case Nil
  then show ?case by auto
next
  case (Cons d ds)
  have "fold (record_row ext) (enumerate n (d # ds)) sheet =
          fold (record_row ext) (enumerate (Suc n) ds) (record_row ext (n, d) sheet)"
    by simp
  then show ?case
    by (auto simp: Cons.IH cell_record_row nth_Cons' simp del: fold_simps)
qed

text \<open>
  C9.  \<open>record_embeddings\<close> changes the worksheet \<open>info\<close> only: for the entry at index
  \<open>i\<close> it leaves the printed number of tokens in column 3 and the printed embedding in
  column 4 of row \<open>i + 2\<close>, and every cell outside columns 3 and 4 of the entries' rows
  keeps its value; columns 1 and 2 (section and content) and row 1 (the header) are
  among them.
\<close>

theorem record_embeddings_frame:
  assumes "db ''info'' = Some sheet"
  shows "\<exists>sheet'. record_embeddings ext df db = Inr (db(''info'' \<mapsto> sheet'))
           \<and> (\<forall>i<length df.
                 cell sheet' (i + 2) 3 = str_tokens (num_tokens (df ! i))
                 \<and> cell sheet' (i + 2) 4 = str_embeddings ext (embeddings (df ! i)))
           \<and> (\<forall>r c. (c \<noteq> 3 \<and> c \<noteq> 4) \<or> r < 2 \<or> length df + 2 \<le> r
                 \<longrightarrow> cell sheet' r c = cell sheet r c)"
proof -
  let ?sheet' = "fold (record_row ext) (enumerate 0 df) sheet"
  from assms have "record_embeddings ext df db = Inr (db(''info'' \<mapsto> ?sheet'))"
    by (simp add: record_embeddings_def access_sheet_def)
  moreover have "\<forall>i<length df.
                 cell ?sheet' (i + 2) 3 = str_tokens (num_tokens (df ! i))
                 \<and> cell ?sheet' (i + 2) 4 = str_embeddings ext (embeddings (df ! i))"
    by (simp add: cell_fold_record_row)
  moreover have "\<forall>r c. (c \<noteq> 3 \<and> c \<noteq> 4) \<or> r < 2 \<or> length df + 2 \<le> r
                 \<longrightarrow> cell ?sheet' r c = cell sheet r c"
    by (auto simp: cell_fold_record_row)
  ultimately show ?thesis by blast
qed

theorem record_embeddings_frame_witness:
  "example_db ''info'' =
     Some [[''section'', ''content'', ''num_tokens'', ''embeddings''],
           [''Hobbies'', ''I like chess.'', [], []]]
   \<and> record_embeddings example_ext [chess] example_db =
       Inr (example_db(''info'' \<mapsto>
              [[''section'', ''content'', ''num_tokens'', ''embeddings''],
               [''Hobbies'', ''I like chess.'', ''6'', ''[0.5, -1.0]'']]))"
proof -
  have h: "example_db ''info'' =
     Some [[''section'', ''content'', ''num_tokens'', ''embeddings''],
           [''Hobbies'', ''I like chess.'', [], []]]"
    by (simp add: example_db_def)
  have six: "str_int 6 = ''6''"
    by code_simp
  have "fold (record_row example_ext) (enumerate 0 [chess])
          [[''section'', ''content'', ''num_tokens'', ''embeddings''],
           [''Hobbies'', ''I like chess.'', [], []]]
        = [[''section'', ''content'', ''num_tokens'', ''embeddings''],
           [''Hobbies'', ''I like chess.'', ''6'', ''[0.5, -1.0]'']]"
    by (simp add: record_row_def update_cell_def chess_def six example_ext_def)
  with h have e: "record_embeddings example_ext [chess] example_db =
       Inr (example_db(''info'' \<mapsto>
              [[''section'', ''content'', ''num_tokens'', ''embeddings''],
               [''Hobbies'', ''I like chess.'', ''6'', ''[0.5, -1.0]'']]))"
    by (simp add: record_embeddings_def access_sheet_def)
  from record_embeddings_frame[where db = example_db and ext = example_ext
      and df = "[chess]", OF h] h e
  show ?thesis by simp
qed

section \<open>Appending to the log\<close>

lemma fold_max_const:
  fixes k :: nat
  assumes "\<forall>x\<in>set xs. x = k"
  shows "fold max xs a = (if xs = [] then a else max a k)"
  using assms by (induction xs arbitrary: a) (auto simp: max_def)

lemma length_str_nat:
  "n < 10 ^ k \<Longrightarrow> 0 < k \<Longrightarrow> length (str_nat n) \<le> k"
proof (induction n arbitrary: k rule: str_nat.induct)
  case (1 n)
  show ?case
  proof (cases "n < 10")
    case True
    with "1.prems" show ?thesis by (simp add: str_nat.simps[of n])
  next
    case False
    from "1.prems" False obtain j where j: "k = Suc j" by (cases k) auto
    with "1.prems" False have "0 < j" by (cases j) auto
    from "1.prems" j have "n div 10 < 10 ^ j" by (simp add: less_mult_imp_div_less mult.commute)
    from "1.IH"[OF False this \<open>0 < j\<close>] False j show ?thesis
      by (simp add: str_nat.simps[of n])
  qed
qed

lemma length_zfill: "length s \<le> w \<Longrightarrow> length (zfill w s) = w"
  by (simp add: zfill_def)

lemma strftime_ymd_shape:
  assumes "year d \<le> 9999" and "month d \<le> 12" and "day d \<le> 31"
  shows "length (strftime_ymd d) = 10
         \<and> strftime_ymd d ! 4 = CHR ''-'' \<and> strftime_ymd d ! 7 = CHR ''-''"
proof -
  have y: "length (zfill 4 (str_nat (year d))) = 4"
    using assms(1) by (intro length_zfill length_str_nat) simp_all
  have m: "length (zfill 2 (str_nat (month d))) = 2"
    using assms(2) by (intro length_zfill length_str_nat) simp_all
  have a: "length (zfill 2 (str_nat (day d))) = 2"
    using assms(3) by (intro length_zfill length_str_nat) simp_all
  show ?thesis
    using y m a by (simp add: strftime_ymd_def nth_append)
qed

text \<open>
  C8.  On a log worksheet that holds its header row and \<open>n\<close> data rows of three cells,
  \<open>record_question_answer\<close> leaves every existing row as it is and writes the row of
  today's date, the query and the answer just below the last one, at row
  \<open>length sheet + 1\<close>, which is the number of rows plus one.  The date is the year on four
  digits, the month and the day on two, with a hyphen between them.
\<close>

theorem record_question_answer_appends:
  assumes "db ''Q&A'' = Some sheet" and "sheet \<noteq> []" and "\<forall>r\<in>set sheet. length r = 3"
  shows "record_question_answer today query answer db =
           Inr (db(''Q&A'' \<mapsto> sheet @ [[strftime_ymd today, query, answer]]))
         \<and> cell (sheet @ [[strftime_ymd today, query, answer]]) (length sheet + 1) 1
             = strftime_ymd today
         \<and> cell (sheet @ [[strftime_ymd today, query, answer]]) (length sheet + 1) 2 = query
         \<and> cell (sheet @ [[strftime_ymd today, query, answer]]) (length sheet + 1) 3 = answer
         \<and> (year today \<le> 9999 \<and> month today \<le> 12 \<and> day today \<le> 31
              \<longrightarrow> length (strftime_ymd today) = 10
                  \<and> strftime_ymd today ! 4 = CHR ''-'' \<and> strftime_ymd today ! 7 = CHR ''-'')"
proof -
  from assms(3) have "\<forall>x\<in>set (map length sheet). x = 3" by simp
  from fold_max_const[OF this, of 0] assms(2) have w: "fold max (map length sheet) 0 = 3"
    by simp
  from assms(3) have g: "get_all_values sheet = sheet"
    by (simp add: get_all_values_def w map_idI)
  have "\<forall>r\<in>set (tl sheet). length r = 3"
    using assms(3) by (meson list.set_sel(2) assms(2))
  then have "\<forall>x\<in>set (map length (tl sheet)). x = 3" by simp
  from fold_max_const[OF this, of 0]
  have "fold max (map length (tl sheet)) 0 = (if tl sheet = [] then 0 else 3)"
    by simp
  then have df: "data_frame (tl sheet) 3 = Inr (tl sheet)"
    by (simp add: data_frame_def)
  from assms(2) have n: "length (tl sheet) + 2 = Suc (length sheet)" by (cases sheet) simp_all
  have u: "update_cell (update_cell (update_cell sheet k 1 a) k 2 b) k 3 c = sheet @ [[a, b, c]]"
    if "k = Suc (length sheet)" for k a b c
    using that by (simp add: update_cell_def Let_def nth_append list_update_append)
  from assms(1) have "record_question_answer today query answer db =
           Inr (db(''Q&A'' \<mapsto>
             update_cell (update_cell (update_cell sheet (length (tl sheet) + 2) 1
               (strftime_ymd today)) (length (tl sheet) + 2) 2 query)
               (length (tl sheet) + 2) 3 answer))"
    by (simp add: record_question_answer_def access_sheet_def g df Let_def)
  then have "record_question_answer today query answer db =
           Inr (db(''Q&A'' \<mapsto> sheet @ [[strftime_ymd today, query, answer]]))"
    by (simp only: u[OF n])
  moreover have "cell (sheet @ [[a, b, c]]) (length sheet + 1) 1 = a"
    "cell (sheet @ [[a, b, c]]) (length sheet + 1) 2 = b"
    "cell (sheet @ [[a, b, c]]) (length sheet + 1) 3 = c" for a b c
    by (simp_all add: cell_def nth_append)
  ultimately show ?thesis
    using strftime_ymd_shape[of today] by simp
qed

text \<open>
  On a log with no data row, the call with \<open>"hi"\<close> and \<open>"hello"\<close> on 14 February 2023
  leaves the header and one row.
\<close>

theorem record_question_answer_appends_witness:
  "example_db ''Q&A'' = Some [[''date'', ''query'', ''answer'']]
   \<and> [[''date'', ''query'', ''answer'']] \<noteq> []
   \<and> length [''date'', ''query'', ''answer''] = 3
   \<and> record_question_answer valentine ''hi'' ''hello'' example_db =
       Inr (example_db(''Q&A'' \<mapsto>
              [[''date'', ''query'', ''answer''], [''2023-02-14'', ''hi'', ''hello'']]))"
proof -
  have h: "example_db ''Q&A'' = Some [[''date'', ''query'', ''answer'']]"
    by (simp add: example_db_def)
  have r: "\<forall>r\<in>set [[''date'', ''query'', ''answer'']]. length r = 3"
    by simp
  have d: "strftime_ymd valentine = ''2023-02-14''"
    by code_simp
  from record_question_answer_appends[where db = example_db and today = valentine
      and query = "''hi''" and answer = "''hello''", OF h _ r] h d
  show ?thesis by simp
qed

section \<open>Writing an embedding and reading it back\<close>

lemma split_no_sep: "sep \<notin> set x \<Longrightarrow> split sep x = [x]"
  by (induction x) auto

lemma split_append_sep:
  "sep \<notin> set x \<Longrightarrow> split sep (x @ sep # rest) = x # split sep rest"
  by (induction x) auto

lemma split_join:
  assumes "rs \<noteq> []" and "\<forall>r\<in>set rs. CHR '','' \<notin> set r"
  shows "split CHR '','' (join '', '' rs) = hd rs # map ((#) CHR '' '') (tl rs)"
  using assms
proof (induction "'', ''" rs rule: join.induct)
  case 1
  then show ?case by simp
next
  case (2 x)
  then show ?case by (simp add: split_no_sep)
next
  case (3 x y ys)
  then have ih: "split CHR '','' (join '', '' (y # ys)) = y # map ((#) CHR '' '') ys"
    by simp
  from "3.prems" have "CHR '','' \<notin> set x" by simp
  then have "split CHR '','' (join '', '' (x # y # ys))
      = x # split CHR '','' (CHR '' '' # join '', '' (y # ys))"
    using split_append_sep[of "CHR '',''" x "CHR '' '' # join '', '' (y # ys)"] by simp
  with ih show ?case by simp
qed

lemma hd_join: "rs \<noteq> [] \<Longrightarrow> hd rs \<noteq> [] \<Longrightarrow> hd (join sep rs) = hd (hd rs)"
  by (induction sep rs rule: join.induct) simp_all

lemma join_last:
  "rs \<noteq> [] \<Longrightarrow> last rs \<noteq> [] \<Longrightarrow> join sep rs \<noteq> [] \<and> last (join sep rs) = last (last rs)"
  by (induction sep rs rule: join.induct) simp_all

lemma strip_by_enclosed:
  assumes "p a" and "p b" and "body \<noteq> []" and "\<not> p (hd body)" and "\<not> p (last body)"
  shows "strip_by p (a # body @ [b]) = body"
proof -
  from assms(3,4) have "dropWhile p (body @ [b]) = body @ [b]"
    by (cases body) simp_all
  with assms(1) have 1: "dropWhile p (a # body @ [b]) = body @ [b]" by simp
  from assms(3,5) have "\<not> p (hd (rev body))" by (simp add: hd_rev)
  with assms(3) have "dropWhile p (rev body) = rev body" by (cases "rev body") simp_all
  with assms(2) have "dropWhile p (rev (body @ [b])) = rev body" by simp
  with 1 show ?thesis by (simp add: strip_by_def)
qed

lemma series_apply_map:
  "\<forall>x\<in>set xs. f (g x) = Inr x \<Longrightarrow> series_apply f (map g xs) = Inr xs"
  by (induction xs) simp_all

lemma py_strip_plain: "plain_literal s \<Longrightarrow> py_strip s = s"
  by (simp add: plain_literal_def py_strip_def strip_by_id)

lemma py_strip_blank_plain: "plain_literal s \<Longrightarrow> py_strip (CHR '' '' # s) = s"
proof -
  assume s: "plain_literal s"
  have "py_isspace CHR '' ''" by (simp add: py_isspace_def)
  then have "py_strip (CHR '' '' # s) = py_strip s"
    by (simp add: py_strip_def strip_by_def)
  with s show ?thesis by (simp add: py_strip_plain)
qed

text \<open>
  A Python list of floats that is not empty comes back from the cell as it was written,
  as long as each float is read back from its own \<open>repr\<close>.
\<close>

lemma parse_numbers_str_list:
  assumes "v \<noteq> []"
    and "\<forall>x\<in>set v. plain_literal (float_repr ext x)
                   \<and> float_literal ext (float_repr ext x) = Inr x"
  shows "parse_numbers ext (str_embeddings ext (PyList v)) = Inr (PyList v)"
proof -
  from assms(1) obtain x xs where v: "v = x # xs" by (cases v) auto
  let ?rs = "map (float_repr ext) v"
  let ?body = "join '', '' ?rs"
  let ?br = "\<lambda>c. c = CHR ''['' \<or> c = CHR '']''"
  have rs: "?rs \<noteq> []" using assms(1) by simp
  have pl: "\<forall>r\<in>set ?rs. plain_literal r" using assms(2) by simp
  then have hd_pl: "plain_literal (hd ?rs)" and last_pl: "plain_literal (last ?rs)"
    using rs by (simp_all add: hd_map last_map assms(1))
  have body_hd: "hd ?body = hd (hd ?rs)"
    using rs hd_pl by (intro hd_join) (simp_all add: plain_literal_def)
  have body_last: "?body \<noteq> [] \<and> last ?body = last (last ?rs)"
    using rs last_pl by (intro join_last) (simp_all add: plain_literal_def)
  have s: "str_embeddings ext (PyList v) = CHR ''['' # ?body @ [CHR '']'']"
    by simp
  have strip: "strip_by ?br (CHR ''['' # ?body @ [CHR '']'']) = ?body"
    using body_hd body_last hd_pl last_pl
    by (intro strip_by_enclosed) (simp_all add: plain_literal_def)
  have "\<forall>r\<in>set ?rs. CHR '','' \<notin> set r"
    using pl by (simp add: plain_literal_def)
  from split_join[OF rs this]
  have sp: "split CHR '','' ?body
      = float_repr ext x # map (\<lambda>y. CHR '' '' # float_repr ext y) xs"
    by (simp add: v comp_def)
  have fx: "py_float ext (float_repr ext x) = Inr x"
    using assms(2) by (simp add: v py_float_def py_strip_plain)
  have "\<forall>y\<in>set xs. py_float ext (CHR '' '' # float_repr ext y) = Inr y"
    using assms(2) by (simp add: v py_float_def py_strip_blank_plain)
  then have "series_apply (py_float ext) (map (\<lambda>y. CHR '' '' # float_repr ext y) xs) = Inr xs"
    by (rule series_apply_map)
  with fx have "series_apply (py_float ext) (split CHR '','' ?body) = Inr v"
    by (subst sp) (simp add: v)
  then show ?thesis
    unfolding s parse_numbers_def strip by simp
qed

text \<open>
  C5.  The embedding of the local backend is a numpy array: \<open>str\<close> prints its elements
  with blanks between them and no comma, \<open>parse_numbers\<close> finds a single piece, and
  \<open>float\<close> raises \<open>ValueError\<close> on it: the cell written for the array of 0.5 and -1 does
  not read back.  The same two floats held in a Python list, the form the remote backend
  returns, do read back.
\<close>

theorem parse_numbers_ndarray_fails:
  "str_embeddings example_ext (NdArray [1 / 2, - 1]) = ''[ 0.5 -1. ]''
   \<and> parse_numbers example_ext ''[ 0.5 -1. ]'' = Inl ValueError
   \<and> str_embeddings example_ext (PyList [1 / 2, - 1]) = ''[0.5, -1.0]''
   \<and> parse_numbers example_ext ''[0.5, -1.0]'' = Inr (PyList [1 / 2, - 1])"
proof -
  have 1: "str_embeddings example_ext (NdArray [1 / 2, - 1]) = ''[ 0.5 -1. ]''"
    by (simp add: example_ext_def)
  have 2: "parse_numbers example_ext ''[ 0.5 -1. ]'' = Inl ValueError"
    by (simp add: parse_numbers_def strip_by_def py_float_def py_strip_def py_isspace_def
        example_ext_def)
  have 3: "str_embeddings example_ext (PyList [1 / 2, - 1]) = ''[0.5, -1.0]''"
    by (simp add: example_ext_def)
  have 4: "parse_numbers example_ext ''[0.5, -1.0]'' = Inr (PyList [1 / 2, - 1])"
    by (simp add: parse_numbers_def strip_by_def py_float_def py_strip_def py_isspace_def
        example_ext_def)
  from 1 2 3 4 show ?thesis by simp
qed

section \<open>The order of the ranking\<close>

text \<open>
  The ranking is what the sorting routine returns for the rows paired with their
  products with the query embedding: it is in descending order of similarity whenever
  the routine returns its argument's rows in that order.
\<close>

lemma order_entries_by_similarity_sorted:
  assumes "order_entries_by_similarity ext query df method = Inr ranked"
    and "\<forall>xs. sorted (rev (map snd (sort_values_desc ext xs)))"
  shows "sorted (rev (map snd ranked))"
  using assms
  by (auto simp: order_entries_by_similarity_def split: sum.splits)

end
